theory Spec2Isabelle
  imports Complex_Main
begin

section \<open>The market decision core of \<^verbatim>\<open>market.py\<close>\<close>

text \<open>
  The class \<^verbatim>\<open>Market\<close> wraps an API market together with operator notes and two
  ordered lists of rules. \<^verbatim>\<open>should_resolve\<close> consults the gate rules
  (\<^verbatim>\<open>do_resolve_rules\<close>), \<^verbatim>\<open>resolve_to\<close> consults the value rules
  (\<^verbatim>\<open>resolve_to_rules\<close>) and falls back to a default read off the market.

  Python objects are mutable and a rule receives \<^verbatim>\<open>self\<close>, so a rule is modelled as a
  function from the state before the call to an outcome and the state after it. An
  exception is the left injection of the outcome.
\<close>

subsection \<open>Data\<close>

text \<open>
  One entry of \<^verbatim>\<open>market.answers\<close>, a dictionary as the API delivers it. The
  source reads only the key \<^verbatim>\<open>'probability'\<close> of an entry, which every entry
  carries; \<open>index\<close> stands for the rest of the entry, the position under which the
  answer is known to the API.
\<close>

record answer =
  index :: int
  answer_probability :: rat

text \<open>
  The fields of the API market that the decision logic reads. Python floats are
  modelled by their exact rational value: \<^verbatim>\<open>round\<close> and \<^verbatim>\<open>>\<close> are exact on
  finite floats. An attribute that is \<^verbatim>\<open>None\<close> is \<open>None\<close>.
\<close>

record APIMarket =
  ident :: string
  isResolved :: bool
  probability :: "rat option"
  answers :: "answer list option"

text \<open>
  The dataclass \<^verbatim>\<open>Market\<close>. The two rule lists are passed to the operations as
  arguments, since a rule's type mentions the state it acts on; a call iterates over the
  list it was given. Anything else a rule can reach (its own attributes, the client)
  lives in the extension part of the record.
\<close>

record Market =
  market :: APIMarket
  "notes" :: string

text \<open>The exceptions of the model: the two that \<^verbatim>\<open>max\<close> raises, and any other.\<close>

datatype exn = TypeError | ValueError | OtherError string

text \<open>
  The values \<^verbatim>\<open>resolve_to\<close> can return: what a rule proposes
  (\<^verbatim>\<open>Union[int, float, Dict[int, float], str]\<close>), the \<^verbatim>\<open>bool\<close> of the binary
  default and the answer entry of the free-response default.
\<close>

datatype pyval =
    PyBool bool
  | PyInt int
  | PyFloat rat
  | PyStr string
  | PyWeights "(int \<times> rat) list"
  | PyAnswer answer

text \<open>
  \<^verbatim>\<open>rule.value(self)\<close>: the outcome (an exception or a result) and the state the
  call leaves behind. The result of a \<^verbatim>\<open>DoResolveRule\<close> is a \<open>bool\<close>, the result of
  a \<^verbatim>\<open>ResolutionValueRule\<close> is a value or \<^verbatim>\<open>None\<close>.
\<close>

type_synonym ('s, 'r) rule = "'s \<Rightarrow> (exn + 'r) \<times> 's"

text \<open>A rule that only reads the state and never raises.\<close>

definition pure_rule :: "('s \<Rightarrow> 'r) \<Rightarrow> ('s, 'r) rule" where
  "pure_rule f = (\<lambda>s. (Inr (f s), s))"

text \<open>A rule is side-effect free when every call leaves the state as it found it.\<close>

definition side_effect_free :: "('s, 'r) rule \<Rightarrow> bool" where
  "side_effect_free r \<longleftrightarrow> (\<forall>s. snd (r s) = s)"

subsection \<open>\<^verbatim>\<open>should_resolve\<close>\<close>

text \<open>
  \<^verbatim>\<open>any(rule.value(self) for rule in (self.do_resolve_rules or ()))\<close>: the generator is
  consumed in order, \<^verbatim>\<open>any\<close> stops at the first true result, an exception leaves the
  loop at once. (\<^verbatim>\<open>or ()\<close> replaces an empty list by the empty tuple.)
\<close>

fun any_rule :: "('s, bool) rule list \<Rightarrow> 's \<Rightarrow> (exn + bool) \<times> 's" where
  "any_rule [] s = (Inr False, s)"
| "any_rule (r # rs) s =
     (case r s of
        (Inl e, s') \<Rightarrow> (Inl e, s')
      | (Inr b, s') \<Rightarrow> if b then (Inr True, s') else any_rule rs s')"

text \<open>
  \<^verbatim>\<open>any(...) and not self.market.isResolved\<close>: the flag is read after the gate rules
  have run, from the state they left.
\<close>

definition should_resolve ::
  "('a Market_scheme, bool) rule list \<Rightarrow> 'a Market_scheme \<Rightarrow> (exn + bool) \<times> 'a Market_scheme"
where
  "should_resolve do_resolve_rules self =
     (case any_rule do_resolve_rules self of
        (Inl e, s') \<Rightarrow> (Inl e, s')
      | (Inr b, s') \<Rightarrow> (Inr (b \<and> \<not> isResolved (market s')), s'))"

subsection \<open>\<^verbatim>\<open>resolve_to\<close>\<close>

text \<open>
  The loop of \<^verbatim>\<open>resolve_to\<close>: \<^verbatim>\<open>chosen\<close> is the first result that is not
  \<^verbatim>\<open>None\<close>, or \<^verbatim>\<open>None\<close> when the list is exhausted.
\<close>

fun first_chosen :: "('s, 'v option) rule list \<Rightarrow> 's \<Rightarrow> (exn + 'v option) \<times> 's" where
  "first_chosen [] s = (Inr None, s)"
| "first_chosen (r # rs) s =
     (case r s of
        (Inl e, s') \<Rightarrow> (Inl e, s')
      | (Inr None, s') \<Rightarrow> first_chosen rs s'
      | (Inr (Some v), s') \<Rightarrow> (Inr (Some v), s'))"

text \<open>
  Python's \<^verbatim>\<open>round\<close> with one argument: to the nearest integer, a tie goes to the
  even neighbour.
\<close>

definition py_round :: "rat \<Rightarrow> int" where
  "py_round x =
     (let f = \<lfloor>x\<rfloor>; d = x - of_int f
      in if d < 1 / 2 then f else if 1 / 2 < d then f + 1 else if even f then f else f + 1)"

text \<open>
  \<^verbatim>\<open>max(xs, key=k)\<close>: the first element is the candidate, a later element replaces
  it only when its key is strictly greater; an empty sequence raises
  \<^verbatim>\<open>ValueError\<close>.
\<close>

fun max_from :: "('a \<Rightarrow> rat) \<Rightarrow> 'a \<Rightarrow> 'a list \<Rightarrow> 'a" where
  "max_from k m [] = m"
| "max_from k m (x # xs) = max_from k (if k m < k x then x else m) xs"

definition py_max :: "('a \<Rightarrow> rat) \<Rightarrow> 'a list \<Rightarrow> exn + 'a" where
  "py_max k xs = (case xs of [] \<Rightarrow> Inl ValueError | x # xs' \<Rightarrow> Inr (max_from k x xs'))"

text \<open>
  The two last statements of \<^verbatim>\<open>resolve_to\<close>. Iterating over \<^verbatim>\<open>None\<close> raises
  \<^verbatim>\<open>TypeError\<close>.
\<close>

definition default_value :: "APIMarket \<Rightarrow> exn + pyval" where
  "default_value m =
     (case probability m of
        Some p \<Rightarrow> Inr (PyBool (py_round p \<noteq> 0))
      | None \<Rightarrow>
          (case answers m of
             None \<Rightarrow> Inl TypeError
           | Some xs \<Rightarrow>
               (case py_max answer_probability xs of
                  Inl e \<Rightarrow> Inl e
                | Inr a \<Rightarrow> Inr (PyAnswer a))))"

definition resolve_to ::
  "('a Market_scheme, pyval option) rule list \<Rightarrow> 'a Market_scheme \<Rightarrow> (exn + pyval) \<times> 'a Market_scheme"
where
  "resolve_to resolve_to_rules self =
     (case first_chosen resolve_to_rules self of
        (Inl e, s') \<Rightarrow> (Inl e, s')
      | (Inr (Some chosen), s') \<Rightarrow> (Inr chosen, s')
      | (Inr None, s') \<Rightarrow> (default_value (market s'), s'))"

subsection \<open>Markets of the three shapes\<close>

text \<open>
  A binary market carries a probability and no answers, a free-response market carries
  answers and no probability, a numeric market carries neither.
\<close>

definition binary_market :: "rat \<Rightarrow> Market" where
  "binary_market p =
     \<lparr>market = \<lparr>ident = ''binary'', isResolved = False, probability = Some p, answers = None\<rparr>,
      notes = ''''\<rparr>"

definition free_response_market :: "answer list \<Rightarrow> Market" where
  "free_response_market xs =
     \<lparr>market = \<lparr>ident = ''free'', isResolved = False, probability = None, answers = Some xs\<rparr>,
      notes = ''''\<rparr>"

definition numeric_market :: Market where
  "numeric_market =
     \<lparr>market = \<lparr>ident = ''numeric'', isResolved = False, probability = None, answers = None\<rparr>,
      notes = ''''\<rparr>"

definition resolved_market :: Market where
  "resolved_market =
     \<lparr>market = \<lparr>ident = ''done'', isResolved = True, probability = Some (4 / 5), answers = None\<rparr>,
      notes = ''''\<rparr>"

text \<open>Rules used as examples: one that raises, one that leaves a trace in the notes.\<close>

definition raising_rule :: "string \<Rightarrow> ('s, 'r) rule" where
  "raising_rule msg = (\<lambda>s. (Inl (OtherError msg), s))"

definition noting_rule :: "string \<Rightarrow> 'r \<Rightarrow> ('a Market_scheme, 'r) rule" where
  "noting_rule msg v = (\<lambda>s. (Inr v, s\<lparr>notes := notes s @ msg\<rparr>))"

text \<open>A value rule with a memory: it proposes 1 on its first call and 2 afterwards.\<close>

definition once_rule :: "('a Market_scheme, pyval option) rule" where
  "once_rule =
     (\<lambda>s. if notes s = [] then (Inr (Some (PyInt 1)), s\<lparr>notes := ''seen''\<rparr>)
          else (Inr (Some (PyInt 2)), s))"

section \<open>Properties\<close>

subsection \<open>The two loops\<close>

lemma any_rule_pure:
  "any_rule (map pure_rule fs) s = (Inr (foldr (\<or>) (map (\<lambda>f. f s) fs) False), s)"
  by (induction fs) (simp_all add: pure_rule_def)

lemma any_rule_append:
  "any_rule pre s = (Inr False, s1) \<Longrightarrow> any_rule (pre @ rs) s = any_rule rs s1"
  by (induction pre arbitrary: s) (auto split: prod.splits sum.splits if_splits)

lemma first_chosen_append:
  "first_chosen pre s = (Inr None, s1) \<Longrightarrow> first_chosen (pre @ rs) s = first_chosen rs s1"
  by (induction pre arbitrary: s) (auto split: prod.splits sum.splits option.splits)

lemma first_chosen_pure_absent:
  "\<forall>f\<in>set fs. f s = None \<Longrightarrow> first_chosen (map pure_rule fs) s = (Inr None, s)"
  by (induction fs) (simp_all add: pure_rule_def)

lemma any_rule_frame:
  "\<forall>r\<in>set rs. side_effect_free r \<Longrightarrow> snd (any_rule rs s) = s"
proof (induction rs)
  case Nil
  show ?case by simp
next
  case (Cons r rs)
  then have "snd (r s) = s" by (simp add: side_effect_free_def)
  with Cons show ?case
    by (cases "r s") (auto split: sum.splits)
qed

lemma first_chosen_frame:
  "\<forall>r\<in>set rs. side_effect_free r \<Longrightarrow> snd (first_chosen rs s) = s"
proof (induction rs)
  case Nil
  show ?case by simp
next
  case (Cons r rs)
  then have "snd (r s) = s" by (simp add: side_effect_free_def)
  with Cons show ?case
    by (cases "r s") (auto split: sum.splits option.splits)
qed

lemma side_effect_free_pure: "side_effect_free (pure_rule f)"
  by (simp add: side_effect_free_def pure_rule_def)

lemma should_resolve_frame:
  "\<forall>g\<in>set gs. side_effect_free g \<Longrightarrow> snd (should_resolve gs s) = s"
  using any_rule_frame [of gs s]
  by (cases "any_rule gs s") (auto simp add: should_resolve_def split: sum.splits)

lemma resolve_to_frame:
  "\<forall>r\<in>set rs. side_effect_free r \<Longrightarrow> snd (resolve_to rs s) = s"
  using first_chosen_frame [of rs s]
  by (cases "first_chosen rs s") (auto simp add: resolve_to_def split: sum.splits option.splits)

lemma resolve_to_all_absent:
  "\<forall>f\<in>set fs. f self = None \<Longrightarrow>
   resolve_to (map pure_rule fs) self = (default_value (market self), self)"
  by (simp add: resolve_to_def first_chosen_pure_absent)

subsection \<open>The defaults\<close>

text \<open>On a probability between 0 and 1 the rounding is nonzero exactly above one half.\<close>

lemma py_round_unit_interval:
  "0 \<le> p \<Longrightarrow> p \<le> 1 \<Longrightarrow> (py_round p \<noteq> 0) = (1 / 2 < p)"
proof (cases "p = 1")
  case True
  then show ?thesis by (simp add: py_round_def)
next
  case False
  assume "0 \<le> p" "p \<le> 1"
  with False have "\<lfloor>p\<rfloor> = 0" by (simp add: floor_eq_iff)
  then show ?thesis by (simp add: py_round_def Let_def)
qed

text \<open>
  \<open>max_from\<close> returns the first element of greatest key: everything before it is
  strictly smaller, nothing after it is greater.
\<close>

lemma max_from_first_maximum:
  "\<exists>ys zs. m # xs = ys @ max_from k m xs # zs
     \<and> (\<forall>y\<in>set ys. k y < k (max_from k m xs))
     \<and> (\<forall>z\<in>set zs. k z \<le> k (max_from k m xs))"
proof (induction xs arbitrary: m)
  case Nil
  have "[m] = [] @ max_from k m [] # [] \<and> (\<forall>y\<in>set []. k y < k (max_from k m []))
     \<and> (\<forall>z\<in>set []. k z \<le> k (max_from k m []))" by simp
  then show ?case by blast
next
  case (Cons x xs)
  show ?case
  proof (cases "k m < k x")
    case True
    then have step: "max_from k m (x # xs) = max_from k x xs" by simp
    from Cons.IH [of x] obtain ys zs where
      d: "x # xs = ys @ max_from k x xs # zs"
      and lt: "\<forall>y\<in>set ys. k y < k (max_from k x xs)"
      and le: "\<forall>z\<in>set zs. k z \<le> k (max_from k x xs)" by blast
    have "k x \<le> k (max_from k x xs)"
    proof (cases ys)
      case Nil
      with d have "max_from k x xs = x" by (metis append_Nil list.inject)
      then show ?thesis by simp
    next
      case (Cons y ys')
      with d have "y = x" by simp
      with lt Cons have "k x < k (max_from k x xs)" by simp
      then show ?thesis by simp
    qed
    with True have km: "k m < k (max_from k x xs)" by simp
    from d have "m # x # xs = (m # ys) @ max_from k x xs # zs" by simp
    moreover from km lt have "\<forall>y\<in>set (m # ys). k y < k (max_from k x xs)" by simp
    ultimately show ?thesis unfolding step using le by blast
  next
    case False
    then have step: "max_from k m (x # xs) = max_from k m xs" by simp
    from Cons.IH [of m] obtain ys zs where
      d: "m # xs = ys @ max_from k m xs # zs"
      and lt: "\<forall>y\<in>set ys. k y < k (max_from k m xs)"
      and le: "\<forall>z\<in>set zs. k z \<le> k (max_from k m xs)" by blast
    show ?thesis
    proof (cases ys)
      case Nil
      with d have m: "max_from k m xs = m" and zs: "zs = xs" by (metis append_Nil list.inject)+
      from False have "k x \<le> k m" by simp
      with le m zs have "\<forall>z\<in>set (x # xs). k z \<le> k (max_from k m xs)" by simp
      moreover from m have "m # x # xs = [] @ max_from k m xs # (x # xs)" by simp
      moreover have "\<forall>y\<in>set []. k y < k (max_from k m xs)" by simp
      ultimately show ?thesis unfolding step by blast
    next
      case (Cons y ys')
      with d have ym: "y = m" and xs: "xs = ys' @ max_from k m xs # zs"
        by (metis append_Cons list.inject)+
      from lt Cons ym have "k m < k (max_from k m xs)" by simp
      with False have kx: "k x < k (max_from k m xs)" by simp
      from xs have "m # x # xs = (m # x # ys') @ max_from k m xs # zs" by simp
      moreover from kx lt Cons ym have "\<forall>y\<in>set (m # x # ys'). k y < k (max_from k m xs)" by simp
      ultimately show ?thesis unfolding step using le by blast
    qed
  qed
qed

text \<open>
  What the last statement of \<^verbatim>\<open>resolve_to\<close> returns on a free-response market with
  at least one answer: the answer entry itself, the first one of greatest probability.
\<close>

lemma default_value_free_response:
  assumes "probability m = None" and "answers m = Some (x # xs)"
  shows "\<exists>ys a zs. x # xs = ys @ a # zs \<and> default_value m = Inr (PyAnswer a)
     \<and> (\<forall>y\<in>set ys. answer_probability y < answer_probability a)
     \<and> (\<forall>z\<in>set zs. answer_probability z \<le> answer_probability a)"
proof -
  from assms have "default_value m = Inr (PyAnswer (max_from answer_probability x xs))"
    by (simp add: default_value_def py_max_def)
  with max_from_first_maximum [of x xs answer_probability] show ?thesis by metis
qed

section \<open>The claims\<close>

subsection \<open>Eligibility\<close>

text \<open>
  Claim C1. For gate rules that are functions from the context to a boolean,
  \<^verbatim>\<open>should_resolve\<close> returns the disjunction of all their results, conjoined with
  \<^verbatim>\<open>isResolved\<close> being false, and leaves the context as it was. So it returns false
  on a resolved market whatever the gate rules say, and false on an empty list of gate
  rules whatever the resolution status.
\<close>

theorem should_resolve_or_and_unresolved:
  "should_resolve (map pure_rule fs) self =
     (Inr (foldr (\<or>) (map (\<lambda>f. f self) fs) False \<and> \<not> isResolved (market self)), self)
   \<and> (isResolved (market self) \<longrightarrow> fst (should_resolve (map pure_rule fs) self) = Inr False)
   \<and> should_resolve [] self = (Inr False, self)"
  by (simp add: should_resolve_def any_rule_pure)

theorem should_resolve_or_and_unresolved_witness:
  "isResolved (market resolved_market)
   \<and> fst (should_resolve (map pure_rule [\<lambda>_. True, \<lambda>_. True]) resolved_market) = Inr False
   \<and> should_resolve (map pure_rule [\<lambda>_. False, \<lambda>_. True, \<lambda>_. False]) (binary_market (4 / 5))
       = (Inr True, binary_market (4 / 5))
   \<and> should_resolve [] (binary_market (4 / 5)) = (Inr False, binary_market (4 / 5))"
proof -
  have h: "isResolved (market resolved_market)"
    by (simp add: resolved_market_def)
  have u: "\<not> isResolved (market (binary_market (4 / 5)))"
    by (simp add: binary_market_def)
  show ?thesis
    using h u
      should_resolve_or_and_unresolved [of "[\<lambda>_. True, \<lambda>_. True]" resolved_market]
      should_resolve_or_and_unresolved
        [of "[\<lambda>_. False, \<lambda>_. True, \<lambda>_. False]" "binary_market (4 / 5)"]
    by simp
qed

text \<open>
  Claim C9. The gate rules run before \<^verbatim>\<open>isResolved\<close> is looked at. On a market that
  is already resolved, a first gate rule that raises makes \<^verbatim>\<open>should_resolve\<close> raise
  that exception, not return false; and whatever list of gate rules is given, the state
  after the call is the state the loop over the gate rules left.
\<close>

theorem should_resolve_runs_gates_when_resolved:
  assumes "isResolved (market self)"
    and "g self = (Inl e, s')"
  shows "should_resolve (g # gs) self = (Inl e, s')
     \<and> fst (should_resolve (g # gs) self) \<noteq> Inr False
     \<and> snd (should_resolve hs self) = snd (any_rule hs self)"
proof -
  have "snd (should_resolve hs self) = snd (any_rule hs self)"
    by (cases "any_rule hs self") (simp add: should_resolve_def split: sum.splits)
  with assms show ?thesis by (simp add: should_resolve_def)
qed

theorem should_resolve_runs_gates_when_resolved_witness:
  "isResolved (market resolved_market)
   \<and> should_resolve (raising_rule ''boom'' # [pure_rule (\<lambda>_. True)]) resolved_market
       = (Inl (OtherError ''boom''), resolved_market)
   \<and> snd (should_resolve [noting_rule ''gate ran'' False] resolved_market)
       = resolved_market\<lparr>notes := ''gate ran''\<rparr>"
proof -
  have h: "isResolved (market resolved_market)"
    by (simp add: resolved_market_def)
  have b: "raising_rule ''boom'' resolved_market = (Inl (OtherError ''boom''), resolved_market)"
    by (simp add: raising_rule_def)
  have n: "snd (any_rule [noting_rule ''gate ran'' False] resolved_market)
      = resolved_market\<lparr>notes := ''gate ran''\<rparr>"
    by (simp add: noting_rule_def resolved_market_def)
  from should_resolve_runs_gates_when_resolved
    [where g = "raising_rule ''boom''" and gs = "[pure_rule (\<lambda>_. True)]"
       and hs = "[noting_rule ''gate ran'' False]", OF h b] h n
  show ?thesis by simp
qed

subsection \<open>Value selection\<close>

text \<open>
  Claim C2. When the rules before \<open>r\<close> have all returned \<^verbatim>\<open>None\<close> (the loop over
  them ends with nothing chosen, in state \<open>s1\<close>) and \<open>r\<close> returns a value \<open>v\<close>,
  \<^verbatim>\<open>resolve_to\<close> returns \<open>v\<close>, and the state is the one \<open>r\<close> left: the rules
  after \<open>r\<close>, whatever they would return, raise or change, are not evaluated.
\<close>

theorem resolve_to_first_match_wins:
  assumes "first_chosen pre self = (Inr None, s1)"
    and "r s1 = (Inr (Some v), s2)"
  shows "resolve_to (pre @ r # post) self = (Inr v, s2)"
  using assms by (simp add: resolve_to_def first_chosen_append)

theorem resolve_to_first_match_wins_witness:
  "first_chosen [pure_rule (\<lambda>_. None :: pyval option)] numeric_market = (Inr None, numeric_market)
   \<and> pure_rule (\<lambda>_. Some (PyStr ''CANCEL'')) numeric_market
       = (Inr (Some (PyStr ''CANCEL'')), numeric_market)
   \<and> resolve_to ([pure_rule (\<lambda>_. None)] @ pure_rule (\<lambda>_. Some (PyStr ''CANCEL''))
         # [noting_rule ''C ran'' (Some (PyInt 42))]) numeric_market
       = (Inr (PyStr ''CANCEL''), numeric_market)"
proof -
  have a: "first_chosen [pure_rule (\<lambda>_. None :: pyval option)] numeric_market
      = (Inr None, numeric_market)"
    by (simp add: pure_rule_def)
  have b: "pure_rule (\<lambda>_. Some (PyStr ''CANCEL'')) numeric_market
       = (Inr (Some (PyStr ''CANCEL'')), numeric_market)"
    by (simp add: pure_rule_def)
  from resolve_to_first_match_wins
    [where r = "pure_rule (\<lambda>_. Some (PyStr ''CANCEL''))"
       and post = "[noting_rule ''C ran'' (Some (PyInt 42))]", OF a b] a b
  show ?thesis by simp
qed

text \<open>
  Claim C3 says that the free-response default is the index of the answer of greatest
  probability. On the answers \<open>[{0, 0.1}, {1, 0.7}, {2, 0.2}]\<close> with no value rule the
  source returns the answer entry \<open>{1, 0.7}\<close> itself, which is not the integer 1.
\<close>

theorem resolve_to_free_response_returns_entry:
  "resolve_to []
     (free_response_market
        [\<lparr>index = 0, answer_probability = 1 / 10\<rparr>,
         \<lparr>index = 1, answer_probability = 7 / 10\<rparr>,
         \<lparr>index = 2, answer_probability = 2 / 10\<rparr>])
   = (Inr (PyAnswer \<lparr>index = 1, answer_probability = 7 / 10\<rparr>),
      free_response_market
        [\<lparr>index = 0, answer_probability = 1 / 10\<rparr>,
         \<lparr>index = 1, answer_probability = 7 / 10\<rparr>,
         \<lparr>index = 2, answer_probability = 2 / 10\<rparr>])
   \<and> PyAnswer \<lparr>index = 1, answer_probability = 7 / 10\<rparr> \<noteq> PyInt 1"
  by (simp add: resolve_to_def default_value_def py_max_def free_response_market_def)

text \<open>
  Claim C4. On a market with a probability \<open>p\<close>, when every value rule returns
  \<^verbatim>\<open>None\<close>, \<^verbatim>\<open>resolve_to\<close> returns the boolean "the rounding of \<open>p\<close> is not zero".
  For \<open>p\<close> between 0 and 1 that is true exactly when \<open>p\<close> is above one half (a
  probability of exactly one half goes to the even neighbour 0, so to false): 0.8 gives
  true and 0.2 gives false.
\<close>

theorem resolve_to_binary_default:
  assumes "\<forall>f\<in>set fs. f self = None"
    and "probability (market self) = Some p"
  shows "resolve_to (map pure_rule fs) self = (Inr (PyBool (py_round p \<noteq> 0)), self)
     \<and> (0 \<le> p \<and> p \<le> 1 \<longrightarrow> (py_round p \<noteq> 0) = (1 / 2 < p))"
  using assms by (simp add: resolve_to_all_absent default_value_def py_round_unit_interval)

theorem resolve_to_binary_default_witness:
  "resolve_to (map pure_rule [\<lambda>_. None]) (binary_market (4 / 5))
     = (Inr (PyBool True), binary_market (4 / 5))
   \<and> resolve_to (map pure_rule []) (binary_market (1 / 5))
     = (Inr (PyBool False), binary_market (1 / 5))
   \<and> resolve_to (map pure_rule []) (binary_market (1 / 2))
     = (Inr (PyBool False), binary_market (1 / 2))"
proof -
  have c: "\<forall>f\<in>set ([]::(Market \<Rightarrow> pyval option) list). f (binary_market (1 / 2)) = None"
    by simp
  have pc: "probability (market (binary_market (1 / 2))) = Some (1 / 2)"
    by (simp add: binary_market_def)
  have a: "\<forall>f\<in>set [\<lambda>_::Market. None::pyval option]. f (binary_market (4 / 5)) = None"
    by simp
  have b: "\<forall>f\<in>set ([]::(Market \<Rightarrow> pyval option) list). f (binary_market (1 / 5)) = None"
    by simp
  have pa: "probability (market (binary_market (4 / 5))) = Some (4 / 5)"
    by (simp add: binary_market_def)
  have pb: "probability (market (binary_market (1 / 5))) = Some (1 / 5)"
    by (simp add: binary_market_def)
  from resolve_to_binary_default [OF a pa] resolve_to_binary_default [OF b pb]
    resolve_to_binary_default [OF c pc]
  show ?thesis by simp
qed

text \<open>
  Claim C10. On a market with a probability, when every value rule returns
  \<^verbatim>\<open>None\<close>, the result of \<^verbatim>\<open>resolve_to\<close> is a boolean and never a float, and the
  default does not depend on the answers: it is the same whatever \<^verbatim>\<open>answers\<close> holds,
  \<^verbatim>\<open>None\<close> included.
\<close>

theorem resolve_to_binary_default_is_bool:
  assumes "\<forall>f\<in>set fs. f self = None"
    and "probability (market self) = Some p"
  shows "(\<exists>b. fst (resolve_to (map pure_rule fs) self) = Inr (PyBool b))
     \<and> (\<forall>x. fst (resolve_to (map pure_rule fs) self) \<noteq> Inr (PyFloat x))
     \<and> (\<forall>a. default_value ((market self)\<lparr>answers := a\<rparr>) = default_value (market self))"
  using assms by (simp add: resolve_to_all_absent default_value_def)

theorem resolve_to_binary_default_is_bool_witness:
  "answers (market (binary_market (4 / 5))) = None
   \<and> (\<exists>b. fst (resolve_to (map pure_rule [\<lambda>_. None]) (binary_market (4 / 5))) = Inr (PyBool b))"
proof -
  have a: "\<forall>f\<in>set [\<lambda>_::Market. None::pyval option]. f (binary_market (4 / 5)) = None"
    by simp
  have p: "probability (market (binary_market (4 / 5))) = Some (4 / 5)"
    by (simp add: binary_market_def)
  have n: "answers (market (binary_market (4 / 5))) = None"
    by (simp add: binary_market_def)
  from resolve_to_binary_default_is_bool [OF a p] n
  show ?thesis by blast
qed

text \<open>
  Claim C6. On a numeric market (no probability, and answers that are \<^verbatim>\<open>None\<close> or
  empty), when every value rule returns \<^verbatim>\<open>None\<close>, \<^verbatim>\<open>resolve_to\<close> returns no value
  at all: it fails. The failure for which no default is available is the exception of
  \<^verbatim>\<open>max\<close>: \<^verbatim>\<open>TypeError\<close> on absent answers, \<^verbatim>\<open>ValueError\<close> on empty ones.
\<close>

theorem resolve_to_numeric_no_default:
  assumes "\<forall>f\<in>set fs. f self = None"
    and "probability (market self) = None"
    and "answers (market self) = None \<or> answers (market self) = Some []"
  shows "resolve_to (map pure_rule fs) self
           = (Inl (if answers (market self) = None then TypeError else ValueError), self)
     \<and> (\<forall>v. fst (resolve_to (map pure_rule fs) self) \<noteq> Inr v)"
  using assms by (auto simp add: resolve_to_all_absent default_value_def py_max_def)

theorem resolve_to_numeric_no_default_witness:
  "resolve_to (map pure_rule [\<lambda>_. None, \<lambda>_. None]) numeric_market = (Inl TypeError, numeric_market)
   \<and> resolve_to (map pure_rule []) (free_response_market [])
       = (Inl ValueError, free_response_market [])"
proof -
  have a: "\<forall>f\<in>set [\<lambda>_::Market. None::pyval option, \<lambda>_. None]. f numeric_market = None"
    by simp
  have b: "\<forall>f\<in>set ([]::(Market \<Rightarrow> pyval option) list). f (free_response_market []) = None"
    by simp
  have pa: "probability (market numeric_market) = None"
    by (simp add: numeric_market_def)
  have pb: "probability (market (free_response_market [])) = None"
    by (simp add: free_response_market_def)
  have na: "answers (market numeric_market) = None \<or> answers (market numeric_market) = Some []"
    by (simp add: numeric_market_def)
  have nb: "answers (market (free_response_market [])) = None
      \<or> answers (market (free_response_market [])) = Some []"
    by (simp add: free_response_market_def)
  from resolve_to_numeric_no_default [OF a pa na] resolve_to_numeric_no_default [OF b pb nb]
  show ?thesis by (simp add: numeric_market_def free_response_market_def)
qed

subsection \<open>Errors\<close>

text \<open>
  Claim C5. A rule that is evaluated and raises ends the call with that same exception,
  for \<^verbatim>\<open>should_resolve\<close> and for \<^verbatim>\<open>resolve_to\<close> alike: when the rules before it
  were not decisive and the rule raises \<open>e\<close>, the outcome is \<open>e\<close> (not a boolean, not
  a default), and the state is the one the raising rule left, whatever rules follow.
\<close>

theorem rule_error_propagates:
  "(any_rule pre self = (Inr False, s1) \<and> g s1 = (Inl e, s2)
      \<longrightarrow> should_resolve (pre @ g # post) self = (Inl e, s2))
   \<and> (first_chosen pre' self = (Inr None, t1) \<and> r t1 = (Inl e', t2)
      \<longrightarrow> resolve_to (pre' @ r # post') self = (Inl e', t2))"
  by (simp add: should_resolve_def resolve_to_def any_rule_append first_chosen_append)

theorem rule_error_propagates_witness:
  "should_resolve ([pure_rule (\<lambda>_. False)] @ raising_rule ''boom'' # [pure_rule (\<lambda>_. True)])
       (binary_market (4 / 5))
     = (Inl (OtherError ''boom''), binary_market (4 / 5))
   \<and> resolve_to ([pure_rule (\<lambda>_. None)] @ raising_rule ''boom'' # [pure_rule (\<lambda>_. Some (PyInt 42))])
       (binary_market (4 / 5))
     = (Inl (OtherError ''boom''), binary_market (4 / 5))"
proof -
  have a: "any_rule [pure_rule (\<lambda>_. False)] (binary_market (4 / 5))
      = (Inr False, binary_market (4 / 5))"
    by (simp add: pure_rule_def)
  have b: "first_chosen [pure_rule (\<lambda>_. None :: pyval option)] (binary_market (4 / 5))
      = (Inr None, binary_market (4 / 5))"
    by (simp add: pure_rule_def)
  have c: "raising_rule ''boom'' (binary_market (4 / 5))
      = (Inl (OtherError ''boom'') :: exn + bool, binary_market (4 / 5))"
    by (simp add: raising_rule_def)
  have c': "raising_rule ''boom'' (binary_market (4 / 5))
      = (Inl (OtherError ''boom'') :: exn + pyval option, binary_market (4 / 5))"
    by (simp add: raising_rule_def)
  from rule_error_propagates
    [of "[pure_rule (\<lambda>_. False)]" "binary_market (4 / 5)" "binary_market (4 / 5)"
        "raising_rule ''boom''" "OtherError ''boom''" "binary_market (4 / 5)"
        "[pure_rule (\<lambda>_. True)]"
        "[pure_rule (\<lambda>_. None)]" "binary_market (4 / 5)" "raising_rule ''boom''"
        "OtherError ''boom''" "binary_market (4 / 5)" "[pure_rule (\<lambda>_. Some (PyInt 42))]"]
    a b c c'
  show ?thesis by blast
qed

subsection \<open>Purity\<close>

text \<open>
  Claim C7. With value rules that leave the state alone, a second call of
  \<^verbatim>\<open>resolve_to\<close>, made in the state the first call left, returns what the first call
  returned.
\<close>

theorem resolve_to_idempotent:
  assumes "\<forall>r\<in>set rs. side_effect_free r"
  shows "fst (resolve_to rs (snd (resolve_to rs self))) = fst (resolve_to rs self)"
  using assms by (simp add: resolve_to_frame)

theorem resolve_to_idempotent_witness:
  "side_effect_free (pure_rule (\<lambda>_::Market. None :: pyval option))
   \<and> side_effect_free
        (pure_rule (\<lambda>s::Market. if isResolved (market s) then None else Some (PyInt 42)))
   \<and> fst (resolve_to
        [pure_rule (\<lambda>_. None),
         pure_rule (\<lambda>s. if isResolved (market s) then None else Some (PyInt 42))]
        (binary_market (4 / 5))) = Inr (PyInt 42)
   \<and> fst (resolve_to
        [pure_rule (\<lambda>_. None),
         pure_rule (\<lambda>s. if isResolved (market s) then None else Some (PyInt 42))]
        (snd (resolve_to
           [pure_rule (\<lambda>_. None),
            pure_rule (\<lambda>s. if isResolved (market s) then None else Some (PyInt 42))]
           (binary_market (4 / 5))))) = Inr (PyInt 42)"
proof -
  let ?rs = "[pure_rule (\<lambda>_. None),
              pure_rule (\<lambda>s::Market. if isResolved (market s) then None else Some (PyInt 42))]"
  have h: "\<forall>r\<in>set ?rs. side_effect_free r"
    by (simp add: side_effect_free_pure)
  have v: "fst (resolve_to ?rs (binary_market (4 / 5))) = Inr (PyInt 42)"
    by (simp add: resolve_to_def pure_rule_def binary_market_def)
  from resolve_to_idempotent [OF h, of "binary_market (4 / 5)"] h v
  show ?thesis by simp
qed

text \<open>
  The hypothesis is needed: a rule that changes the state between calls can answer
  differently the second time.
\<close>

lemma resolve_to_twice_with_memory:
  "fst (resolve_to [once_rule] numeric_market) = Inr (PyInt 1)
   \<and> fst (resolve_to [once_rule] (snd (resolve_to [once_rule] numeric_market))) = Inr (PyInt 2)"
  by (simp add: resolve_to_def once_rule_def numeric_market_def)

text \<open>
  Claim C8. With rules that leave the state alone, \<^verbatim>\<open>should_resolve\<close> and
  \<^verbatim>\<open>resolve_to\<close> leave it alone too: the state after the call is the state before
  it, so the market's identifier, \<^verbatim>\<open>isResolved\<close>, probability and answers, the
  notes, and everything in the extension of the record are unchanged.
\<close>

theorem evaluator_leaves_context_unchanged:
  "((\<forall>g\<in>set gs. side_effect_free g) \<longrightarrow> snd (should_resolve gs self) = self)
   \<and> ((\<forall>r\<in>set rs. side_effect_free r) \<longrightarrow> snd (resolve_to rs self) = self)"
  by (simp add: should_resolve_frame resolve_to_frame)

theorem evaluator_leaves_context_unchanged_witness:
  "side_effect_free (pure_rule (\<lambda>_::Market. False))
   \<and> side_effect_free (pure_rule (\<lambda>s::Market. notes s = ''''))
   \<and> side_effect_free (pure_rule (\<lambda>_::Market. None :: pyval option))
   \<and> side_effect_free (raising_rule ''boom'' :: (Market, pyval option) rule)
   \<and> snd (should_resolve [pure_rule (\<lambda>_. False), pure_rule (\<lambda>s. notes s = '''')]
        (binary_market (4 / 5)))
       = binary_market (4 / 5)
   \<and> snd (resolve_to [pure_rule (\<lambda>_. None), raising_rule ''boom''] (binary_market (4 / 5)))
       = binary_market (4 / 5)"
proof -
  have g: "\<forall>g\<in>set [pure_rule (\<lambda>_. False), pure_rule (\<lambda>s::Market. notes s = '''')].
      side_effect_free g"
    by (simp add: side_effect_free_pure)
  have r: "\<forall>r\<in>set [pure_rule (\<lambda>_. None), raising_rule ''boom'' :: (Market, pyval option) rule].
      side_effect_free r"
    by (simp add: side_effect_free_pure) (simp add: side_effect_free_def raising_rule_def)
  from evaluator_leaves_context_unchanged
    [of "[pure_rule (\<lambda>_. False), pure_rule (\<lambda>s::Market. notes s = '''')]" "binary_market (4 / 5)"
        "[pure_rule (\<lambda>_. None), raising_rule ''boom'']"] g r
  show ?thesis by simp
qed

end
